theory Spec2Isabelle
  imports Complex_Main
begin

section \<open>Data model\<close>

text \<open>
  The tables are the ones declared by the Sequelize models (models/User.js, Product.js,
  Inventory.js, Order.js, OrderItem.js, Review.js).  Columns that no service function
  modelled below reads or writes (timestamps, sku, image_url, ...) are left
  out.  The INTEGER columns are \<open>int\<close>.  The DECIMAL(10,2) columns hold JavaScript
  numbers, which SQLite stores as they are; a finite double is a rational number, so
  these columns are \<open>rat\<close>, and the arithmetic on them is the rounding arithmetic of
  doubles defined below.
\<close>

text \<open>
  The error classes of utils/errors.js that the services throw, each with its message;
  the plain JavaScript \<open>Error\<close>, either with a message of its own or, as \<open>Wrapped\<close>,
  made by \<open>new Error(prefix + error.message)\<close> from the error caught; the two errors
  thrown by the ORM (a validation of the model that fails, a primary key or unique index
  that is violated); and the \<open>TypeError\<close> of the language.  The message texts of the ORM
  and of the language are not modelled.
\<close>

datatype error =
    ValidationError string
  | NotFoundError string
  | ConflictError string
  | BusinessLogicError string
  | Error string
  | Wrapped string error
  | SequelizeValidationError
  | SequelizeUniqueConstraintError
  | TypeError

fun is_ValidationError :: "error \<Rightarrow> bool" where
  "is_ValidationError (ValidationError m) = True"
| "is_ValidationError e = False"

fun is_NotFoundError :: "error \<Rightarrow> bool" where
  "is_NotFoundError (NotFoundError m) = True"
| "is_NotFoundError e = False"

fun is_ConflictError :: "error \<Rightarrow> bool" where
  "is_ConflictError (ConflictError m) = True"
| "is_ConflictError e = False"

fun is_BusinessLogicError :: "error \<Rightarrow> bool" where
  "is_BusinessLogicError (BusinessLogicError m) = True"
| "is_BusinessLogicError e = False"

datatype order_status = Pending | Confirmed | Shipped | Delivered | Cancelled

datatype payment_status = PaymentPending | Paid | Failed | Refunded

record user =
  usr_username :: string

record product =
  prod_name :: string
  prod_price :: rat
  prod_is_active :: bool

record inventory =
  inv_quantity :: int
  inv_min_stock :: int
  inv_max_stock :: int

record order =
  ord_id :: int
  ord_order_number :: string
  ord_user_id :: int
  ord_status :: order_status
  ord_total_amount :: rat
  ord_shipping_address :: string
  ord_billing_address :: string
  ord_payment_status :: payment_status

record order_item =
  oi_id :: int
  oi_order_id :: int
  oi_product_id :: int
  oi_quantity :: int
  oi_unit_price :: rat
  oi_total_price :: rat

record review =
  rev_id :: int
  rev_product_id :: int
  rev_user_id :: int
  rev_rating :: int
  rev_comment :: "string option"
  rev_is_verified_purchase :: bool

text \<open>
  The database.  Tables with a primary-key lookup are maps from the id; \<open>inventory\<close> is
  keyed by its unique \<open>product_id\<close>.  \<open>order_items\<close> and \<open>reviews\<close> are kept in
  insertion order.  The \<open>next_*\<close> fields are the AUTOINCREMENT counters.
\<close>

record db =
  users :: "int \<rightharpoonup> user"
  products :: "int \<rightharpoonup> product"
  inventory :: "int \<rightharpoonup> inventory"
  orders :: "int \<rightharpoonup> order"
  order_items :: "order_item list"
  reviews :: "review list"
  next_order_id :: int
  next_order_item_id :: int
  next_review_id :: int

text \<open>
  A \<open>try { ... } catch (error) { ... }\<close> of the services: the errors of the listed
  classes are rethrown as they are, any other error is replaced by a plain \<open>Error\<close> whose
  message is the function's prefix followed by the message of the error caught
  (\<open>Wrapped\<close>).
\<close>

definition rethrow_or_wrap ::
  "(error \<Rightarrow> bool) \<Rightarrow> string \<Rightarrow> (error + 'a) \<times> db \<Rightarrow> (error + 'a) \<times> db" where
  "rethrow_or_wrap known prefix r =
     (case r of
        (Inl e, s) \<Rightarrow> (Inl (if known e then e else Wrapped prefix e), s)
      | (Inr v, s) \<Rightarrow> (Inr v, s))"

text \<open>
  A transaction opened on the database \<open>s0\<close>: when the body throws, the \<open>catch\<close> block
  calls \<open>transaction.rollback()\<close> and the database is \<open>s0\<close> again; otherwise the body's
  writes are committed.
\<close>

definition in_transaction :: "db \<Rightarrow> (error + 'a) \<times> db \<Rightarrow> (error + 'a) \<times> db" where
  "in_transaction s0 r =
     (case r of
        (Inl e, s) \<Rightarrow> (Inl e, s0)
      | (Inr v, s) \<Rightarrow> (Inr v, s))"

text \<open>A JavaScript template literal prints an integer in decimal.\<close>

fun string_of_nat :: "nat \<Rightarrow> string" where
  "string_of_nat n =
     (if n < 10 then [''0123456789'' ! n]
      else string_of_nat (n div 10) @ [''0123456789'' ! (n mod 10)])"

definition string_of_int :: "int \<Rightarrow> string" where
  "string_of_int i =
     (if i < 0 then CHR ''-'' # string_of_nat (nat (- i)) else string_of_nat (nat i))"

fun join :: "string \<Rightarrow> string list \<Rightarrow> string" where
  "join sep [] = []"
| "join sep [x] = x"
| "join sep (x # y # ys) = x @ sep @ join sep (y # ys)"

section \<open>JavaScript numbers\<close>

text \<open>
  The arithmetic of the prices is the one of IEEE 754 doubles: the exact result is
  rounded to the nearest double, a tie to the one with an even significand.
  \<open>to_double\<close> is that rounding on the rationals, with 53 bits of significand and the
  subnormal numbers below \<open>2 powi - 1022\<close>; the overflow to \<open>Infinity\<close> (results of
  magnitude \<open>2 ^ 1024\<close> and more) and \<open>NaN\<close> are not modelled.
\<close>

function bit_length :: "int \<Rightarrow> nat" where
  "bit_length n = (if n \<le> 0 then 0 else Suc (bit_length (n div 2)))"
  by pat_completeness auto
termination
  by (relation "measure nat") auto

text \<open>For \<open>a > 0\<close>, the integer \<open>e\<close> with \<open>2 powi e \<le> a < 2 powi (e + 1)\<close>.\<close>

definition floor_log2 :: "rat \<Rightarrow> int" where
  "floor_log2 a =
     (if 1 \<le> a then int (bit_length \<lfloor>a\<rfloor>) - 1
      else - int (bit_length (\<lceil>1 / a\<rceil> - 1)))"

definition round_half_even :: "rat \<Rightarrow> int" where
  "round_half_even q =
     (let f = \<lfloor>q\<rfloor>; d = q - of_int f
      in if d < 1 / 2 then f else if 1 / 2 < d then f + 1 else if even f then f else f + 1)"

definition to_double :: "rat \<Rightarrow> rat" where
  "to_double x =
     (if x = 0 then 0
      else (let e = max (floor_log2 \<bar>x\<bar>) (- 1022);
                u = 2 powi (e - 52)
            in sgn x * of_int (round_half_even (\<bar>x\<bar> / u)) * u))"

definition js_add :: "rat \<Rightarrow> rat \<Rightarrow> rat" where
  "js_add x y = to_double (x + y)"

definition js_mul :: "rat \<Rightarrow> rat \<Rightarrow> rat" where
  "js_mul x y = to_double (x * y)"

section \<open>InventoryService\<close>

text \<open>
  \<open>inventory.update({ quantity })\<close> on a model instance.  Sequelize validates the written
  attribute against the model (Inventory.js: \<open>quantity: validate { isInt, min: 0 }\<close>) before it
  saves; a failed validation throws and nothing is written.
\<close>

definition Inventory_update_quantity :: "int \<Rightarrow> inventory \<Rightarrow> int \<Rightarrow> db \<Rightarrow> error + db" where
  "Inventory_update_quantity productId stock newQuantity s =
     (if newQuantity < 0 then Inl SequelizeValidationError
      else Inr (s\<lparr>inventory := (inventory s)(productId \<mapsto> stock\<lparr>inv_quantity := newQuantity\<rparr>)\<rparr>))"

definition getInventoryByProductId :: "int \<Rightarrow> db \<Rightarrow> error + inventory" where
  "getInventoryByProductId productId s =
     (case inventory s productId of
        None \<Rightarrow> Inl (NotFoundError ''Inventario no encontrado para este producto'')
      | Some stock \<Rightarrow> Inr stock)"

text \<open>
  Each service function returns its result (\<open>Inl\<close> the thrown error) together with the
  database after the call.  The \<open>_try\<close> function is the body of the \<open>try\<close> block.
\<close>

definition updateStock_try :: "int \<Rightarrow> int \<Rightarrow> string \<Rightarrow> db \<Rightarrow> (error + inventory) \<times> db" where
  "updateStock_try productId qty operation s =
     (case inventory s productId of
        None \<Rightarrow> (Inl (NotFoundError ''Inventario no encontrado para este producto''), s)
      | Some stock \<Rightarrow>
          (case (if operation = ''add'' then Inr (inv_quantity stock + qty)
                 else if operation = ''subtract'' then
                   (let newQuantity = inv_quantity stock - qty
                    in if newQuantity < 0
                       then Inl (BusinessLogicError ''No hay suficiente stock disponible'')
                       else Inr newQuantity)
                 else if operation = ''set'' then Inr qty
                 else Inl (ValidationError ''Operacion invalida'')) of
             Inl e \<Rightarrow> (Inl e, s)
           | Inr newQuantity \<Rightarrow>
               (case Inventory_update_quantity productId stock newQuantity s of
                  Inl e \<Rightarrow> (Inl e, s)
                | Inr s' \<Rightarrow> (getInventoryByProductId productId s', s'))))"

definition updateStock :: "int \<Rightarrow> int \<Rightarrow> string \<Rightarrow> db \<Rightarrow> (error + inventory) \<times> db" where
  "updateStock productId qty operation s =
     rethrow_or_wrap
       (\<lambda>e. is_NotFoundError e \<or> is_BusinessLogicError e \<or> is_ValidationError e)
       ''Error al actualizar stock: ''
       (updateStock_try productId qty operation s)"

definition reserveStock_try :: "int \<Rightarrow> int \<Rightarrow> db \<Rightarrow> (error + inventory) \<times> db" where
  "reserveStock_try productId qty s =
     (case inventory s productId of
        None \<Rightarrow> (Inl (NotFoundError ''Inventario no encontrado para este producto''), s)
      | Some stock \<Rightarrow>
          if inv_quantity stock < qty
          then (Inl (BusinessLogicError
                  (''Stock insuficiente. Disponible: '' @ string_of_int (inv_quantity stock)
                   @ '', Solicitado: '' @ string_of_int qty)), s)
          else (case Inventory_update_quantity productId stock (inv_quantity stock - qty) s of
                  Inl e \<Rightarrow> (Inl e, s)
                | Inr s' \<Rightarrow> (getInventoryByProductId productId s', s')))"

definition reserveStock :: "int \<Rightarrow> int \<Rightarrow> db \<Rightarrow> (error + inventory) \<times> db" where
  "reserveStock productId qty s =
     rethrow_or_wrap (\<lambda>e. is_NotFoundError e \<or> is_BusinessLogicError e)
       ''Error al reservar stock: '' (reserveStock_try productId qty s)"

definition releaseStock_try :: "int \<Rightarrow> int \<Rightarrow> db \<Rightarrow> (error + inventory) \<times> db" where
  "releaseStock_try productId qty s =
     (case inventory s productId of
        None \<Rightarrow> (Inl (NotFoundError ''Inventario no encontrado para este producto''), s)
      | Some stock \<Rightarrow>
          (case Inventory_update_quantity productId stock (inv_quantity stock + qty) s of
             Inl e \<Rightarrow> (Inl e, s)
           | Inr s' \<Rightarrow> (getInventoryByProductId productId s', s')))"

definition releaseStock :: "int \<Rightarrow> int \<Rightarrow> db \<Rightarrow> (error + inventory) \<times> db" where
  "releaseStock productId qty s =
     rethrow_or_wrap is_NotFoundError ''Error al liberar stock: ''
       (releaseStock_try productId qty s)"

definition processInventoryAdjustment_try ::
  "int \<Rightarrow> int \<Rightarrow> string \<Rightarrow> db \<Rightarrow> (error + inventory) \<times> db" where
  "processInventoryAdjustment_try productId adjustment reason s =
     (case inventory s productId of
        None \<Rightarrow> (Inl (NotFoundError ''Inventario no encontrado para este producto''), s)
      | Some stock \<Rightarrow>
          (let newQuantity = inv_quantity stock + adjustment
           in if newQuantity < 0
              then (Inl (BusinessLogicError ''El ajuste resultaria en stock negativo''), s)
              else (case Inventory_update_quantity productId stock newQuantity s of
                      Inl e \<Rightarrow> (Inl e, s)
                    | Inr s' \<Rightarrow> (getInventoryByProductId productId s', s'))))"

definition processInventoryAdjustment ::
  "int \<Rightarrow> int \<Rightarrow> string \<Rightarrow> db \<Rightarrow> (error + inventory) \<times> db" where
  "processInventoryAdjustment productId adjustment reason s =
     rethrow_or_wrap (\<lambda>e. is_NotFoundError e \<or> is_BusinessLogicError e)
       ''Error al procesar ajuste de inventario: ''
       (processInventoryAdjustment_try productId adjustment reason s)"

text \<open>A call of one of the inventory operations, and a sequence of calls run in order.\<close>

datatype inventory_op =
    UpdateStock int int string
  | ReserveStock int int
  | ReleaseStock int int
  | ProcessInventoryAdjustment int int string

fun run_inventory_op :: "inventory_op \<Rightarrow> db \<Rightarrow> db" where
  "run_inventory_op (UpdateStock p q operation) s = snd (updateStock p q operation s)"
| "run_inventory_op (ReserveStock p q) s = snd (reserveStock p q s)"
| "run_inventory_op (ReleaseStock p q) s = snd (releaseStock p q s)"
| "run_inventory_op (ProcessInventoryAdjustment p a reason) s =
     snd (processInventoryAdjustment p a reason s)"

definition run_inventory_ops :: "inventory_op list \<Rightarrow> db \<Rightarrow> db" where
  "run_inventory_ops ops s = fold run_inventory_op ops s"

definition stock_nonneg :: "db \<Rightarrow> bool" where
  "stock_nonneg s = (\<forall>p stock. inventory s p = Some stock \<longrightarrow> 0 \<le> inv_quantity stock)"

section \<open>OrderService\<close>

text \<open>The arguments of \<open>createOrder\<close>: \<open>orderData\<close> and one element of \<open>items\<close>.\<close>

record order_data =
  od_user_id :: int
  od_shipping_address :: "string option"
  od_billing_address :: "string option"

record item =
  it_product_id :: int
  it_quantity :: int

record stock_validation =
  available :: bool
  unavailableItems :: "string list"

fun validateStockAvailability_loop :: "item list \<Rightarrow> db \<Rightarrow> string list \<Rightarrow> string list" where
  "validateStockAvailability_loop [] s unavailable = unavailable"
| "validateStockAvailability_loop (i # rest) s unavailable =
     validateStockAvailability_loop rest s
       (if (case inventory s (it_product_id i) of
              None \<Rightarrow> True
            | Some stock \<Rightarrow> inv_quantity stock < it_quantity i)
        then unavailable @
               [case products s (it_product_id i) of
                  Some product \<Rightarrow> prod_name product
                | None \<Rightarrow> ''Producto ID '' @ string_of_int (it_product_id i)]
        else unavailable)"

definition validateStockAvailability :: "item list \<Rightarrow> db \<Rightarrow> stock_validation" where
  "validateStockAvailability items s =
     (let unavailable = validateStockAvailability_loop items s []
      in \<lparr>available = (length unavailable = 0), unavailableItems = unavailable\<rparr>)"

fun calculateOrderTotal_loop :: "item list \<Rightarrow> db \<Rightarrow> rat \<Rightarrow> error + rat" where
  "calculateOrderTotal_loop [] s totalSum = Inr totalSum"
| "calculateOrderTotal_loop (i # rest) s totalSum =
     (case products s (it_product_id i) of
        None \<Rightarrow> Inl (NotFoundError
                  (''Producto con ID '' @ string_of_int (it_product_id i) @ '' no encontrado''))
      | Some product \<Rightarrow>
          calculateOrderTotal_loop rest s
            (js_add totalSum (js_mul (prod_price product) (of_int (it_quantity i)))))"

definition calculateOrderTotal :: "item list \<Rightarrow> db \<Rightarrow> error + rat" where
  "calculateOrderTotal items s = calculateOrderTotal_loop items s 0"

text \<open>
  \<open>Order.create\<close> with \<open>status: 'pending'\<close> and \<open>payment_status: 'pending'\<close>.  The
  first argument is the \<open>order_number\<close> of the values, \<open>None\<close> when the caller gives none.
  The model (Order.js) declares \<open>order_number\<close> with \<open>allowNull: false\<close> and a length of 5
  to 50, and validates \<open>user_id\<close> (min 1), \<open>total_amount\<close> (min 0) and both addresses
  (not null, length 10 to 1000).  Sequelize validates before it runs the \<open>beforeCreate\<close>
  hook, so the hook, which would generate a missing order number, is reached only with an
  order number that is there already and does nothing.  The row gets the next id of the
  table; an order number or a primary key that is already taken is refused.
\<close>

definition address_ok :: "string option \<Rightarrow> bool" where
  "address_ok a = (case a of None \<Rightarrow> False | Some t \<Rightarrow> 10 \<le> length t \<and> length t \<le> 1000)"

definition order_number_ok :: "string option \<Rightarrow> bool" where
  "order_number_ok n = (case n of None \<Rightarrow> False | Some t \<Rightarrow> 5 \<le> length t \<and> length t \<le> 50)"

definition Order_create ::
  "string option \<Rightarrow> int \<Rightarrow> rat \<Rightarrow> string option \<Rightarrow> string option \<Rightarrow> db \<Rightarrow> error + int \<times> db" where
  "Order_create orderNumber userId totalAmount shipping billing s =
     (if \<not> (order_number_ok orderNumber \<and> 1 \<le> userId \<and> 0 \<le> totalAmount
             \<and> address_ok shipping \<and> address_ok billing)
      then Inl SequelizeValidationError
      else if the orderNumber \<in> ord_order_number ` ran (orders s)
              \<or> orders s (next_order_id s) \<noteq> None
      then Inl SequelizeUniqueConstraintError
      else Inr (next_order_id s,
             s\<lparr>orders := (orders s)(next_order_id s \<mapsto>
                   \<lparr>ord_id = next_order_id s, ord_order_number = the orderNumber,
                    ord_user_id = userId, ord_status = Pending,
                    ord_total_amount = totalAmount, ord_shipping_address = the shipping,
                    ord_billing_address = the billing, ord_payment_status = PaymentPending\<rparr>),
               next_order_id := next_order_id s + 1\<rparr>))"

text \<open>
  \<open>OrderItem.create\<close>.  The model (OrderItem.js) validates \<open>order_id\<close> (min 1),
  \<open>product_id\<close> (min 1), \<open>quantity\<close> (min 1), \<open>unit_price\<close> and \<open>total_price\<close> (min 0);
  its \<open>beforeCreate\<close> hook fills a \<open>total_price\<close> that is 0 with
  \<open>unit_price * quantity\<close>, a product of JavaScript numbers.
\<close>

definition OrderItem_create :: "int \<Rightarrow> int \<Rightarrow> int \<Rightarrow> rat \<Rightarrow> rat \<Rightarrow> db \<Rightarrow> error + order_item \<times> db" where
  "OrderItem_create orderId productId qty unitPrice totalPrice s =
     (if \<not> (1 \<le> orderId \<and> 1 \<le> productId \<and> 1 \<le> qty \<and> 0 \<le> unitPrice \<and> 0 \<le> totalPrice)
      then Inl SequelizeValidationError
      else
        (let orderItem =
               \<lparr>oi_id = next_order_item_id s, oi_order_id = orderId, oi_product_id = productId,
                oi_quantity = qty, oi_unit_price = unitPrice,
                oi_total_price =
                  (if totalPrice = 0 then js_mul unitPrice (of_int qty) else totalPrice)\<rparr>
         in Inr (orderItem,
              s\<lparr>order_items := order_items s @ [orderItem],
                next_order_item_id := next_order_item_id s + 1\<rparr>)))"

text \<open>
  \<open>Inventory.update({ quantity: sequelize.literal('quantity + n') }, { where: { product_id } })\<close>:
  the row of the product, when there is one, gets \<open>quantity + n\<close>.  A literal is not
  checked by the model's validators.  The tables are the ones that \<open>sequelize.sync\<close> makes
  from the models, so the CHECK constraints of the SQL scripts are not relied on.
\<close>

definition Inventory_update_literal :: "int \<Rightarrow> int \<Rightarrow> db \<Rightarrow> db" where
  "Inventory_update_literal productId n s =
     (case inventory s productId of
        None \<Rightarrow> s
      | Some stock \<Rightarrow>
          s\<lparr>inventory := (inventory s)(productId \<mapsto>
               stock\<lparr>inv_quantity := inv_quantity stock + n\<rparr>)\<rparr>)"

definition getOrderById :: "int \<Rightarrow> db \<Rightarrow> error + order" where
  "getOrderById orderId s =
     (case orders s orderId of
        None \<Rightarrow> Inl (NotFoundError ''Pedido no encontrado'')
      | Some order \<Rightarrow> Inr order)"

text \<open>The loop of \<open>createOrder\<close> that creates the order items and reserves the stock.\<close>

fun createOrder_loop :: "int \<Rightarrow> item list \<Rightarrow> db \<Rightarrow> (error + unit) \<times> db" where
  "createOrder_loop orderId [] s = (Inr (), s)"
| "createOrder_loop orderId (i # rest) s =
     (case products s (it_product_id i) of
        None \<Rightarrow> (Inl (NotFoundError
                   (''Producto con ID '' @ string_of_int (it_product_id i) @ '' no encontrado'')), s)
      | Some product \<Rightarrow>
          (case OrderItem_create orderId (it_product_id i) (it_quantity i) (prod_price product)
                  (js_mul (prod_price product) (of_int (it_quantity i))) s of
             Inl e \<Rightarrow> (Inl e, s)
           | Inr (orderItem, s1) \<Rightarrow>
               createOrder_loop orderId rest
                 (Inventory_update_literal (it_product_id i) (- it_quantity i) s1)))"

text \<open>
  \<open>items\<close> is \<open>None\<close> when the caller passes \<open>undefined\<close> or \<open>null\<close>.  The values
  that \<open>createOrder\<close> hands to \<open>Order.create\<close> have no \<open>order_number\<close>.
\<close>

definition createOrder_try :: "order_data \<Rightarrow> item list option \<Rightarrow> db \<Rightarrow> (error + order) \<times> db" where
  "createOrder_try orderData items s =
     (case users s (od_user_id orderData) of
        None \<Rightarrow> (Inl (NotFoundError ''Usuario no encontrado''), s)
      | Some user \<Rightarrow>
          (case items of
             None \<Rightarrow> (Inl (ValidationError ''El pedido debe contener al menos un item''), s)
           | Some its \<Rightarrow>
               if length its = 0
               then (Inl (ValidationError ''El pedido debe contener al menos un item''), s)
               else
                 (let stockValidation = validateStockAvailability its s
                  in if \<not> available stockValidation
                     then (Inl (BusinessLogicError
                             (''Stock insuficiente para: ''
                              @ join '', '' (unavailableItems stockValidation))), s)
                     else
                       (case calculateOrderTotal its s of
                          Inl e \<Rightarrow> (Inl e, s)
                        | Inr totalAmount \<Rightarrow>
                            (case Order_create None (od_user_id orderData) totalAmount
                                    (od_shipping_address orderData)
                                    (od_billing_address orderData) s of
                               Inl e \<Rightarrow> (Inl e, s)
                             | Inr (orderId, s1) \<Rightarrow>
                                 (case createOrder_loop orderId its s1 of
                                    (Inl e, s2) \<Rightarrow> (Inl e, s2)
                                  | (Inr u, s2) \<Rightarrow> (getOrderById orderId s2, s2)))))))"

definition createOrder :: "order_data \<Rightarrow> item list option \<Rightarrow> db \<Rightarrow> (error + order) \<times> db" where
  "createOrder orderData items s =
     rethrow_or_wrap
       (\<lambda>e. is_ValidationError e \<or> is_NotFoundError e \<or> is_ConflictError e
             \<or> is_BusinessLogicError e)
       ''Error al crear pedido: ''
       (in_transaction s (createOrder_try orderData items s))"

definition findAll_OrderItem :: "int \<Rightarrow> db \<Rightarrow> order_item list" where
  "findAll_OrderItem orderId s = filter (\<lambda>oi. oi_order_id oi = orderId) (order_items s)"

definition releaseOrderStock :: "int \<Rightarrow> db \<Rightarrow> db" where
  "releaseOrderStock orderId s =
     fold (\<lambda>oi. Inventory_update_literal (oi_product_id oi) (oi_quantity oi))
       (findAll_OrderItem orderId s) s"

fun status_of_string :: "string \<Rightarrow> order_status option" where
  "status_of_string t =
     (if t = ''pending'' then Some Pending
      else if t = ''confirmed'' then Some Confirmed
      else if t = ''shipped'' then Some Shipped
      else if t = ''delivered'' then Some Delivered
      else if t = ''cancelled'' then Some Cancelled
      else None)"

definition updateOrderStatus_try :: "int \<Rightarrow> string \<Rightarrow> db \<Rightarrow> (error + order) \<times> db" where
  "updateOrderStatus_try orderId newStatus s =
     (case orders s orderId of
        None \<Rightarrow> (Inl (NotFoundError ''Pedido no encontrado''), s)
      | Some order \<Rightarrow>
          (case status_of_string newStatus of
             None \<Rightarrow> (Inl (ValidationError ''Estado de pedido invalido''), s)
           | Some st \<Rightarrow>
               (let s1 = (if st = Cancelled \<and> ord_status order \<noteq> Cancelled
                          then releaseOrderStock orderId s else s)
                in if st = Confirmed \<and> ord_status order = Pending
                      \<and> \<not> available (validateStockAvailability
                            (map (\<lambda>oi. \<lparr>it_product_id = oi_product_id oi,
                                        it_quantity = oi_quantity oi\<rparr>)
                               (findAll_OrderItem orderId s1)) s1)
                   then (Inl (BusinessLogicError ''Stock insuficiente para confirmar el pedido''), s1)
                   else
                     (let s2 = s1\<lparr>orders := (orders s1)(orderId \<mapsto> order\<lparr>ord_status := st\<rparr>)\<rparr>
                      in (getOrderById orderId s2, s2)))))"

definition updateOrderStatus :: "int \<Rightarrow> string \<Rightarrow> db \<Rightarrow> (error + order) \<times> db" where
  "updateOrderStatus orderId newStatus s =
     rethrow_or_wrap
       (\<lambda>e. is_ValidationError e \<or> is_NotFoundError e \<or> is_BusinessLogicError e)
       ''Error al actualizar estado del pedido: ''
       (in_transaction s (updateOrderStatus_try orderId newStatus s))"

definition cancelOrder_try :: "int \<Rightarrow> db \<Rightarrow> (error + order) \<times> db" where
  "cancelOrder_try orderId s =
     (case orders s orderId of
        None \<Rightarrow> (Inl (NotFoundError ''Pedido no encontrado''), s)
      | Some order \<Rightarrow>
          if ord_status order = Cancelled
          then (Inl (ConflictError ''El pedido ya esta cancelado''), s)
          else if ord_status order = Delivered
          then (Inl (BusinessLogicError ''No se puede cancelar un pedido ya entregado''), s)
          else
            (let s1 = releaseOrderStock orderId s;
                 s2 = s1\<lparr>orders := (orders s1)(orderId \<mapsto>
                          order\<lparr>ord_status := Cancelled, ord_payment_status := Refunded\<rparr>)\<rparr>
             in (getOrderById orderId s2, s2)))"

definition cancelOrder :: "int \<Rightarrow> db \<Rightarrow> (error + order) \<times> db" where
  "cancelOrder orderId s =
     rethrow_or_wrap
       (\<lambda>e. is_ValidationError e \<or> is_NotFoundError e \<or> is_ConflictError e
             \<or> is_BusinessLogicError e)
       ''Error al cancelar pedido: ''
       (in_transaction s (cancelOrder_try orderId s))"

section \<open>ReviewService\<close>

record review_data =
  rd_product_id :: int
  rd_user_id :: int
  rd_rating :: int
  rd_comment :: "string option"

text \<open>
  \<open>verifyPurchase\<close> builds the query \<open>OrderItem.findOne\<close> on the product, joined with
  its order restricted to the user and to the statuses confirmed, shipped and delivered,
  and returns \<open>!!orderItem\<close>.  It writes the operator as \<open>sequelize.Op.in\<close>, where
  \<open>sequelize\<close> is the instance that config/database.js exports.  \<open>Op\<close> is a property of
  the class \<open>Sequelize\<close>, not of its instances (the other services import it with
  \<open>const { Op } = require('sequelize')\<close>), so \<open>sequelize.Op\<close> is \<open>undefined\<close> and
  reading \<open>in\<close> of it throws a \<open>TypeError\<close> before any query is made.  The \<open>catch\<close> of
  the function rethrows it as a plain \<open>Error\<close>.
\<close>

definition sequelize_Op :: "unit option" where
  "sequelize_Op = None"

definition verifyPurchase_try :: "int \<Rightarrow> int \<Rightarrow> db \<Rightarrow> error + bool" where
  "verifyPurchase_try userId productId s =
     (case sequelize_Op of
        None \<Rightarrow> Inl TypeError
      | Some Op \<Rightarrow>
          (case find (\<lambda>oi. oi_product_id oi = productId
                          \<and> (case orders s (oi_order_id oi) of
                                None \<Rightarrow> False
                              | Some order \<Rightarrow>
                                  ord_user_id order = userId
                                  \<and> ord_status order \<in> set [Confirmed, Shipped, Delivered]))
                 (order_items s) of
             None \<Rightarrow> Inr False
           | Some orderItem \<Rightarrow> Inr True))"

definition verifyPurchase :: "int \<Rightarrow> int \<Rightarrow> db \<Rightarrow> error + bool" where
  "verifyPurchase userId productId s =
     (case verifyPurchase_try userId productId s of
        Inl e \<Rightarrow> Inl (Wrapped ''Error al verificar compra: '' e)
      | Inr hasPurchased \<Rightarrow> Inr hasPurchased)"

text \<open>
  \<open>Product.update(values, { where: { id } })\<close>.  Sequelize writes only the attributes that
  the model declares (Product.js); the other keys of \<open>values\<close> are dropped.  Of the declared
  attributes the record \<open>product\<close> keeps name, price and is_active.
\<close>

datatype jsval = JNumber rat | JString string | JBoolean bool

definition Product_attributes :: "string list" where
  "Product_attributes =
     [''id'', ''name'', ''description'', ''price'', ''category_id'', ''sku'', ''image_url'',
      ''is_active'', ''created_at'', ''updated_at'']"

fun Product_set :: "string \<times> jsval \<Rightarrow> product \<Rightarrow> product" where
  "Product_set (k, JNumber x) p = (if k = ''price'' then p\<lparr>prod_price := x\<rparr> else p)"
| "Product_set (k, JString t) p = (if k = ''name'' then p\<lparr>prod_name := t\<rparr> else p)"
| "Product_set (k, JBoolean b) p = (if k = ''is_active'' then p\<lparr>prod_is_active := b\<rparr> else p)"

definition Product_update :: "(string \<times> jsval) list \<Rightarrow> int \<Rightarrow> db \<Rightarrow> db" where
  "Product_update vals productId s =
     (let fields = filter (\<lambda>kv. fst kv \<in> set Product_attributes) vals
      in case products s productId of
           None \<Rightarrow> s
         | Some p \<Rightarrow> s\<lparr>products := (products s)(productId \<mapsto> fold Product_set fields p)\<rparr>)"

text \<open>\<open>Math.round\<close> rounds to the nearest integer, a half upwards.\<close>

definition Math_round :: "rat \<Rightarrow> int" where
  "Math_round x = \<lfloor>x + 1 / 2\<rfloor>"

text \<open>
  The aggregate query of \<open>updateProductAverageRating\<close>: \<open>AVG(rating)\<close>, which is NULL
  (\<open>None\<close>) over no rows, and \<open>COUNT(id)\<close>.
\<close>

definition review_stats :: "int \<Rightarrow> db \<Rightarrow> rat option \<times> nat" where
  "review_stats productId s =
     (let ratings = map rev_rating (filter (\<lambda>r. rev_product_id r = productId) (reviews s))
      in (if ratings = [] then None
          else Some (of_int (sum_list ratings) / of_nat (length ratings)),
          length ratings))"

text \<open>
  The values that \<open>updateProductAverageRating\<close> hands to \<open>Product.update\<close>:
  \<open>stats.averageRating || 0\<close> and \<open>stats.totalReviews || 0\<close>, the average rounded to one
  decimal.
\<close>

definition average_rating_values :: "int \<Rightarrow> db \<Rightarrow> (string \<times> jsval) list" where
  "average_rating_values productId s =
     (let stats = review_stats productId s;
          averageRating = (case fst stats of None \<Rightarrow> 0 | Some a \<Rightarrow> a);
          totalReviews = snd stats
      in [(''average_rating'', JNumber (of_int (Math_round (averageRating * 10)) / 10)),
          (''review_count'', JNumber (of_nat totalReviews))])"

definition updateProductAverageRating :: "int \<Rightarrow> db \<Rightarrow> db" where
  "updateProductAverageRating productId s =
     Product_update (average_rating_values productId s) productId s"

text \<open>
  \<open>Review.create\<close>.  The model (Review.js) validates \<open>product_id\<close> and \<open>user_id\<close> (min 1),
  \<open>rating\<close> (1 to 5) and the length of a comment (at most 1000); its \<open>beforeCreate\<close> hook
  throws a plain \<open>Error\<close> when the pair already has a review.
\<close>

definition findOne_Review :: "int \<Rightarrow> int \<Rightarrow> db \<Rightarrow> review option" where
  "findOne_Review productId userId s =
     find (\<lambda>r. rev_product_id r = productId \<and> rev_user_id r = userId) (reviews s)"

definition Review_create ::
  "int \<Rightarrow> int \<Rightarrow> int \<Rightarrow> string option \<Rightarrow> bool \<Rightarrow> db \<Rightarrow> error + review \<times> db" where
  "Review_create productId userId rating comment verified s =
     (if \<not> (1 \<le> productId \<and> 1 \<le> userId \<and> 1 \<le> rating \<and> rating \<le> 5
             \<and> (case comment of None \<Rightarrow> True | Some c \<Rightarrow> length c \<le> 1000))
      then Inl SequelizeValidationError
      else if findOne_Review productId userId s \<noteq> None
      then Inl (Error ''Ya has resenado este producto'')
      else if find (\<lambda>r. rev_id r = next_review_id s) (reviews s) \<noteq> None
      then Inl SequelizeUniqueConstraintError
      else
        (let review =
               \<lparr>rev_id = next_review_id s, rev_product_id = productId, rev_user_id = userId,
                rev_rating = rating, rev_comment = comment,
                rev_is_verified_purchase = verified\<rparr>
         in Inr (review,
              s\<lparr>reviews := reviews s @ [review], next_review_id := next_review_id s + 1\<rparr>)))"

definition getReviewById :: "int \<Rightarrow> db \<Rightarrow> error + review" where
  "getReviewById reviewId s =
     (case find (\<lambda>r. rev_id r = reviewId) (reviews s) of
        None \<Rightarrow> Inl (NotFoundError ''Resena no encontrada'')
      | Some review \<Rightarrow> Inr review)"

definition createReview_try :: "review_data \<Rightarrow> db \<Rightarrow> (error + review) \<times> db" where
  "createReview_try reviewData s =
     (case users s (rd_user_id reviewData) of
        None \<Rightarrow> (Inl (NotFoundError ''Usuario no encontrado''), s)
      | Some user \<Rightarrow>
          (case products s (rd_product_id reviewData) of
             None \<Rightarrow> (Inl (NotFoundError ''Producto no encontrado''), s)
           | Some product \<Rightarrow>
               (case findOne_Review (rd_product_id reviewData) (rd_user_id reviewData) s of
                  Some existingReview \<Rightarrow> (Inl (ConflictError ''Ya has resenado este producto''), s)
                | None \<Rightarrow>
                    (case verifyPurchase (rd_user_id reviewData) (rd_product_id reviewData) s of
                       Inl e \<Rightarrow> (Inl e, s)
                     | Inr hasPurchased \<Rightarrow>
                         (case Review_create (rd_product_id reviewData) (rd_user_id reviewData)
                                 (rd_rating reviewData) (rd_comment reviewData) hasPurchased s of
                            Inl e \<Rightarrow> (Inl e, s)
                          | Inr (review, s1) \<Rightarrow>
                              (let s2 = updateProductAverageRating (rd_product_id reviewData) s1
                               in (getReviewById (rev_id review) s2, s2)))))))"

definition createReview :: "review_data \<Rightarrow> db \<Rightarrow> (error + review) \<times> db" where
  "createReview reviewData s =
     rethrow_or_wrap
       (\<lambda>e. is_ValidationError e \<or> is_NotFoundError e \<or> is_ConflictError e
             \<or> is_BusinessLogicError e)
       ''Error al crear resena: ''
       (in_transaction s (createReview_try reviewData s))"

definition deleteReview_try :: "int \<Rightarrow> db \<Rightarrow> (error + bool) \<times> db" where
  "deleteReview_try reviewId s =
     (case find (\<lambda>r. rev_id r = reviewId) (reviews s) of
        None \<Rightarrow> (Inl (NotFoundError ''Resena no encontrada''), s)
      | Some review \<Rightarrow>
          (let productId = rev_product_id review;
               s1 = s\<lparr>reviews := filter (\<lambda>r. rev_id r \<noteq> reviewId) (reviews s)\<rparr>;
               s2 = updateProductAverageRating productId s1
           in (Inr True, s2)))"

definition deleteReview :: "int \<Rightarrow> db \<Rightarrow> (error + bool) \<times> db" where
  "deleteReview reviewId s =
     rethrow_or_wrap is_NotFoundError ''Error al eliminar resena: ''
       (in_transaction s (deleteReview_try reviewId s))"

section \<open>OrderController\<close>

text \<open>
  The checks that \<open>OrderController.createOrder\<close> makes on the request body before it
  calls the service: \<open>user_id\<close> and \<open>items\<close> are required (a missing or zero \<open>user_id\<close>
  is falsy, \<open>items\<close> must be a non-empty array), and every item needs a truthy
  \<open>product_id\<close> and a truthy, positive \<open>quantity\<close>.  \<open>None\<close> means that the request
  passes the checks.
\<close>

definition OrderController_createOrder_check :: "int option \<Rightarrow> item list option \<Rightarrow> error option" where
  "OrderController_createOrder_check user_id items =
     (case items of
        None \<Rightarrow> Some (ValidationError ''Usuario y items son requeridos'')
      | Some its \<Rightarrow>
          if user_id = None \<or> user_id = Some 0 \<or> length its = 0
          then Some (ValidationError ''Usuario y items son requeridos'')
          else if list_ex (\<lambda>i. it_product_id i = 0 \<or> it_quantity i = 0 \<or> it_quantity i \<le> 0) its
          then Some (ValidationError ''Cada item debe tener product_id y quantity valida'')
          else None)"

section \<open>Notions used in the statements\<close>

text \<open>
  An item is short when the product has no inventory row or less stock than requested;
  the label of an item in the error message is the product's name, or its id when there
  is no such product.
\<close>

definition is_short :: "db \<Rightarrow> item \<Rightarrow> bool" where
  "is_short s i =
     (case inventory s (it_product_id i) of
        None \<Rightarrow> True
      | Some stock \<Rightarrow> inv_quantity stock < it_quantity i)"

definition product_label :: "db \<Rightarrow> item \<Rightarrow> string" where
  "product_label s i =
     (case products s (it_product_id i) of
        Some product \<Rightarrow> prod_name product
      | None \<Rightarrow> ''Producto ID '' @ string_of_int (it_product_id i))"

text \<open>The quantity of product \<open>p\<close> that a list of items asks for.\<close>

definition ordered_quantity :: "int \<Rightarrow> item list \<Rightarrow> int" where
  "ordered_quantity p items =
     sum_list (map it_quantity (filter (\<lambda>i. it_product_id i = p) items))"

text \<open>
  The order item \<open>oi\<close> of order \<open>orderId\<close> is a line for the requested item \<open>i\<close>: same
  product, same quantity.
\<close>

definition line_of :: "int \<Rightarrow> order_item \<Rightarrow> item \<Rightarrow> bool" where
  "line_of orderId oi i =
     (oi_order_id oi = orderId \<and> oi_product_id oi = it_product_id i
      \<and> oi_quantity oi = it_quantity i)"

section \<open>Example databases\<close>

text \<open>
  One user, two products (product 1 costs 10.00 and has 5 in stock, product 2 has 8 in
  stock), no orders and no reviews yet.
\<close>

definition example_db :: db where
  "example_db =
     \<lparr>users = [1 \<mapsto> \<lparr>usr_username = ''elliot''\<rparr>],
      products = [1 \<mapsto> \<lparr>prod_name = ''Teclado'', prod_price = 10, prod_is_active = True\<rparr>,
                  2 \<mapsto> \<lparr>prod_name = ''Monitor'', prod_price = 199, prod_is_active = True\<rparr>],
      inventory = [1 \<mapsto> \<lparr>inv_quantity = 5, inv_min_stock = 5, inv_max_stock = 100\<rparr>,
                   2 \<mapsto> \<lparr>inv_quantity = 8, inv_min_stock = 5, inv_max_stock = 100\<rparr>],
      orders = Map.empty,
      order_items = [],
      reviews = [],
      next_order_id = 1,
      next_order_item_id = 1,
      next_review_id = 1\<rparr>"

definition example_order_data :: order_data where
  "example_order_data =
     \<lparr>od_user_id = 1,
      od_shipping_address = Some ''Av. Amazonas 123, Quito'',
      od_billing_address = Some ''Av. Amazonas 123, Quito''\<rparr>"

text \<open>
  A database that holds a pending order of the user for two units of product 1, with its
  order item, and in which the stock of product 1 is 3.
\<close>

definition example_order :: order where
  "example_order =
     \<lparr>ord_id = 1, ord_order_number = ''ORD-EXAMPLE-1'', ord_user_id = 1, ord_status = Pending,
      ord_total_amount = 20,
      ord_shipping_address = ''Av. Amazonas 123, Quito'',
      ord_billing_address = ''Av. Amazonas 123, Quito'',
      ord_payment_status = PaymentPending\<rparr>"

definition example_db_ordered :: db where
  "example_db_ordered =
     example_db
       \<lparr>inventory := (inventory example_db)(1 \<mapsto>
            \<lparr>inv_quantity = 3, inv_min_stock = 5, inv_max_stock = 100\<rparr>),
        orders := [1 \<mapsto> example_order],
        order_items := [\<lparr>oi_id = 1, oi_order_id = 1, oi_product_id = 1, oi_quantity = 2,
                         oi_unit_price = 10, oi_total_price = 20\<rparr>],
        next_order_id := 2,
        next_order_item_id := 2\<rparr>"

definition example_db_with_status :: "order_status \<Rightarrow> db" where
  "example_db_with_status st =
     example_db_ordered\<lparr>orders := [1 \<mapsto> example_order\<lparr>ord_status := st\<rparr>]\<rparr>"

text \<open>
  A request for a review of product 1 by the user, and a database that holds such a
  review next to the confirmed order.
\<close>

definition example_review_data :: review_data where
  "example_review_data =
     \<lparr>rd_product_id = 1, rd_user_id = 1, rd_rating = 4,
      rd_comment = Some ''Muy buen teclado''\<rparr>"

definition example_review :: review where
  "example_review =
     \<lparr>rev_id = 1, rev_product_id = 1, rev_user_id = 1, rev_rating = 4,
      rev_comment = Some ''Muy buen teclado'', rev_is_verified_purchase = True\<rparr>"

definition example_db_reviewed :: db where
  "example_db_reviewed =
     (example_db_with_status Confirmed)\<lparr>reviews := [example_review], next_review_id := 2\<rparr>"

section \<open>Basic facts\<close>

lemmas example_defs =
  example_db_def example_order_data_def example_order_def example_db_ordered_def
  example_db_with_status_def example_review_def example_review_data_def
  example_db_reviewed_def

lemmas order_defs =
  createOrder_def createOrder_try_def validateStockAvailability_def calculateOrderTotal_def
  Order_create_def address_ok_def order_number_ok_def OrderItem_create_def
  Inventory_update_literal_def
  getOrderById_def updateOrderStatus_def updateOrderStatus_try_def cancelOrder_def
  cancelOrder_try_def releaseOrderStock_def findAll_OrderItem_def Let_def

lemmas review_defs =
  createReview_def createReview_try_def findOne_Review_def verifyPurchase_def
  verifyPurchase_try_def sequelize_Op_def Review_create_def
  updateProductAverageRating_def average_rating_values_def review_stats_def Product_update_def
  Product_attributes_def getReviewById_def deleteReview_def deleteReview_try_def Let_def

lemma snd_rethrow_or_wrap [simp]: "snd (rethrow_or_wrap known prefix r) = snd r"
  by (simp add: rethrow_or_wrap_def split: prod.splits sum.splits)

lemma rethrow_or_wrap_Inl [simp]:
  "rethrow_or_wrap known prefix (Inl e, s) =
     (Inl (if known e then e else Wrapped prefix e), s)"
  by (simp add: rethrow_or_wrap_def)

lemma rethrow_or_wrap_Inr [simp]: "rethrow_or_wrap known prefix (Inr v, s) = (Inr v, s)"
  by (simp add: rethrow_or_wrap_def)

lemma rethrow_or_wrap_Inr_iff [simp]:
  "rethrow_or_wrap known prefix r = (Inr v, s') \<longleftrightarrow> r = (Inr v, s')"
  by (auto simp: rethrow_or_wrap_def split: prod.splits sum.splits)

lemma in_transaction_Inl [simp]: "in_transaction s0 (Inl e, s) = (Inl e, s0)"
  by (simp add: in_transaction_def)

lemma in_transaction_Inr [simp]: "in_transaction s0 (Inr v, s) = (Inr v, s)"
  by (simp add: in_transaction_def)

lemma in_transaction_Inr_iff [simp]:
  "in_transaction s0 r = (Inr v, s') \<longleftrightarrow> r = (Inr v, s')"
  by (auto simp: in_transaction_def split: prod.splits sum.splits)

text \<open>
  The sum of the doubles nearest to 0.1 and 0.2 is the double above 0.3
  (0.30000000000000004); small whole numbers are multiplied exactly.
\<close>

lemma js_add_example:
  "js_add (to_double (1 / 10)) (to_double (2 / 10)) = 1351079888211149 / 4503599627370496"
  by code_simp

lemma js_mul_example: "js_mul 10 2 = 20"
  by code_simp

lemma other_class_not_ValidationError:
  "is_NotFoundError e \<Longrightarrow> \<not> is_ValidationError e"
  "is_BusinessLogicError e \<Longrightarrow> \<not> is_ValidationError e"
  by (cases e; simp)+

section \<open>Inventory quantities stay non-negative\<close>

lemma Inventory_update_quantity_nonneg:
  assumes "stock_nonneg s" and "Inventory_update_quantity p stock q s = Inr s'"
  shows "stock_nonneg s'"
  using assms
  by (auto simp: Inventory_update_quantity_def stock_nonneg_def split: if_splits)

lemma updateStock_nonneg: "stock_nonneg s \<Longrightarrow> stock_nonneg (snd (updateStock p q operation s))"
  by (auto simp: updateStock_def updateStock_try_def Let_def
           split: option.splits sum.splits if_splits
           dest: Inventory_update_quantity_nonneg)

lemma reserveStock_nonneg: "stock_nonneg s \<Longrightarrow> stock_nonneg (snd (reserveStock p q s))"
  by (auto simp: reserveStock_def reserveStock_try_def split: option.splits sum.splits
           dest: Inventory_update_quantity_nonneg)

lemma releaseStock_nonneg: "stock_nonneg s \<Longrightarrow> stock_nonneg (snd (releaseStock p q s))"
  by (auto simp: releaseStock_def releaseStock_try_def split: option.splits sum.splits
           dest: Inventory_update_quantity_nonneg)

lemma processInventoryAdjustment_nonneg:
  "stock_nonneg s \<Longrightarrow> stock_nonneg (snd (processInventoryAdjustment p a reason s))"
  by (auto simp: processInventoryAdjustment_def processInventoryAdjustment_try_def Let_def
           split: option.splits sum.splits
           dest: Inventory_update_quantity_nonneg)

lemma run_inventory_op_nonneg: "stock_nonneg s \<Longrightarrow> stock_nonneg (run_inventory_op x s)"
  by (cases x)
     (simp_all add: updateStock_nonneg reserveStock_nonneg releaseStock_nonneg
        processInventoryAdjustment_nonneg)

lemma run_inventory_ops_nonneg: "stock_nonneg s \<Longrightarrow> stock_nonneg (run_inventory_ops ops s)"
  unfolding run_inventory_ops_def
  by (induction ops arbitrary: s) (simp_all add: run_inventory_op_nonneg)

lemma updateStock_set_requires_nonneg:
  "updateStock p q ''set'' s = (Inr r, s') \<Longrightarrow> 0 \<le> q"
  by (auto simp: updateStock_def updateStock_try_def Inventory_update_quantity_def
           split: option.splits if_splits)

lemma stock_nonneg_example_db: "stock_nonneg example_db"
  by (simp add: stock_nonneg_def example_db_def)

text \<open>Reserving 100 units of product 2 against a stock of 8 fails and leaves the stock at 8.\<close>

lemma reserveStock_example:
  "reserveStock 2 100 example_db =
     (Inl (BusinessLogicError ''Stock insuficiente. Disponible: 8, Solicitado: 100''),
      example_db)"
  by (simp add: reserveStock_def reserveStock_try_def example_db_def string_of_int_def)

text \<open>
  C1.  Starting from a database in which every inventory quantity is at least 0, any
  sequence of \<open>updateStock\<close> (add, subtract, set), \<open>reserveStock\<close>, \<open>releaseStock\<close>
  and \<open>processInventoryAdjustment\<close> calls leaves every inventory quantity at least 0;
  and an \<open>updateStock\<close> in mode set succeeds only when the written amount is at least 0.
\<close>

theorem C1_inventory_quantity_nonneg:
  assumes "stock_nonneg s"
  shows "stock_nonneg (run_inventory_ops ops s)
       \<and> (\<forall>p q r s'. updateStock p q ''set'' s = (Inr r, s') \<longrightarrow> 0 \<le> q)"
  using assms run_inventory_ops_nonneg updateStock_set_requires_nonneg by blast

text \<open>
  C1 on the example database: a set to -4 and a release of -9 are refused, the other
  calls go through, and setting product 1 to 7 succeeds.
\<close>

theorem C1_inventory_quantity_nonneg_witness:
  "stock_nonneg example_db
   \<and> stock_nonneg
        (run_inventory_ops
           [UpdateStock 1 (- 4) ''set'', ReleaseStock 1 (- 9), ReserveStock 2 3,
            UpdateStock 2 7 ''subtract'', ProcessInventoryAdjustment 1 (- 5) ''recuento'']
           example_db)
   \<and> updateStock 1 7 ''set'' example_db =
        (Inr \<lparr>inv_quantity = 7, inv_min_stock = 5, inv_max_stock = 100\<rparr>,
         example_db\<lparr>inventory := (inventory example_db)(1 \<mapsto>
            \<lparr>inv_quantity = 7, inv_min_stock = 5, inv_max_stock = 100\<rparr>)\<rparr>)
   \<and> (0::int) \<le> 7"
proof -
  have set7: "updateStock 1 7 ''set'' example_db =
        (Inr \<lparr>inv_quantity = 7, inv_min_stock = 5, inv_max_stock = 100\<rparr>,
         example_db\<lparr>inventory := (inventory example_db)(1 \<mapsto>
            \<lparr>inv_quantity = 7, inv_min_stock = 5, inv_max_stock = 100\<rparr>)\<rparr>)"
    by (simp add: updateStock_def updateStock_try_def Inventory_update_quantity_def
          getInventoryByProductId_def example_db_def)
  from C1_inventory_quantity_nonneg [OF stock_nonneg_example_db] stock_nonneg_example_db set7
  show ?thesis by blast
qed

section \<open>Creating an order\<close>

lemma validateStockAvailability_loop_eq:
  "validateStockAvailability_loop items s unavailable =
     unavailable @ map (product_label s) (filter (is_short s) items)"
  by (induction items arbitrary: unavailable) (simp_all add: is_short_def product_label_def)

lemma validateStockAvailability_eq:
  "validateStockAvailability items s =
     \<lparr>available = (filter (is_short s) items = []),
      unavailableItems = map (product_label s) (filter (is_short s) items)\<rparr>"
  by (simp add: validateStockAvailability_def validateStockAvailability_loop_eq Let_def)

lemma confirm_example:
  "updateOrderStatus 1 ''confirmed'' example_db_ordered
     = (Inr (example_order\<lparr>ord_status := Confirmed\<rparr>), example_db_with_status Confirmed)"
  by (simp add: order_defs example_defs)

text \<open>
  C2, as stated, fails: when the user of the order does not exist the call is rejected
  with \<open>NotFoundError\<close> before the stock is looked at.  Here user 99 asks for 100 units
  of product 2, of which 8 are in stock.
\<close>

theorem C2_counterexample:
  "inventory example_db 2 = Some \<lparr>inv_quantity = 8, inv_min_stock = 5, inv_max_stock = 100\<rparr>
   \<and> createOrder (example_order_data\<lparr>od_user_id := 99\<rparr>)
        (Some [\<lparr>it_product_id = 2, it_quantity = 100\<rparr>]) example_db
       = (Inl (NotFoundError ''Usuario no encontrado''), example_db)"
  by (simp add: createOrder_def createOrder_try_def example_defs)

text \<open>
  C2, amended.  When some requested item asks for more than the inventory row of its
  product holds, \<open>createOrder\<close> fails and the database is exactly as before the call.
  When the user exists the error is a \<open>BusinessLogicError\<close> whose message lists the
  labels of all short items, in the order of the request; when the user does not exist
  it is the \<open>NotFoundError\<close> of the user check.
\<close>

theorem C2_insufficient_stock_rejected:
  assumes "i \<in> set items" and "inventory s (it_product_id i) = Some stock"
    and "inv_quantity stock < it_quantity i"
  shows "createOrder orderData (Some items) s =
           (Inl (if users s (od_user_id orderData) = None
                 then NotFoundError ''Usuario no encontrado''
                 else BusinessLogicError
                        (''Stock insuficiente para: ''
                         @ join '', '' (map (product_label s) (filter (is_short s) items)))),
            s)"
proof -
  have "is_short s i" using assms by (simp add: is_short_def)
  with assms(1) have short: "filter (is_short s) items \<noteq> []"
    by (auto simp: filter_empty_conv)
  from assms(1) have "items \<noteq> []" by auto
  with short show ?thesis
    by (simp add: createOrder_def createOrder_try_def validateStockAvailability_eq
             split: option.splits)
qed

text \<open>
  C2 on the example database: 100 units of product 2 against a stock of 8, and one unit
  of a product 7 that does not exist.
\<close>

theorem C2_insufficient_stock_rejected_witness:
  "createOrder example_order_data
     (Some [\<lparr>it_product_id = 2, it_quantity = 100\<rparr>, \<lparr>it_product_id = 1, it_quantity = 1\<rparr>,
            \<lparr>it_product_id = 7, it_quantity = 1\<rparr>]) example_db
     = (Inl (BusinessLogicError ''Stock insuficiente para: Monitor, Producto ID 7''),
        example_db)"
  using C2_insufficient_stock_rejected
          [of "\<lparr>it_product_id = 2, it_quantity = 100\<rparr>"
              "[\<lparr>it_product_id = 2, it_quantity = 100\<rparr>, \<lparr>it_product_id = 1, it_quantity = 1\<rparr>,
                \<lparr>it_product_id = 7, it_quantity = 1\<rparr>]"
              example_db "\<lparr>inv_quantity = 8, inv_min_stock = 5, inv_max_stock = 100\<rparr>"
              example_order_data]
  by (simp add: example_defs is_short_def product_label_def string_of_int_def)

text \<open>
  \<open>createOrder\<close> gives \<open>Order.create\<close> no order number, so the validation of the model
  refuses the row, whatever the other values are.
\<close>

lemma Order_create_None:
  "Order_create None userId totalAmount shipping billing s = Inl SequelizeValidationError"
  by (simp add: Order_create_def order_number_ok_def)

lemma calculateOrderTotal_loop_Inl:
  "calculateOrderTotal_loop items s acc = Inl e \<Longrightarrow> is_NotFoundError e"
  by (induction items arbitrary: acc) (auto split: option.splits)

lemma createOrder_try_Inl:
  "\<exists>e s'. createOrder_try orderData items s = (Inl e, s')
     \<and> (is_NotFoundError e \<or> is_BusinessLogicError e \<or> e = SequelizeValidationError
          \<or> (e = ValidationError ''El pedido debe contener al menos un item''
              \<and> (items = None \<or> items = Some [])))"
proof (cases "users s (od_user_id orderData)")
  case None
  then show ?thesis by (simp add: createOrder_try_def)
next
  case (Some user)
  show ?thesis
  proof (cases items)
    case None
    with Some show ?thesis by (simp add: createOrder_try_def)
  next
    case (Some its)
    show ?thesis
    proof (cases "calculateOrderTotal its s")
      case (Inl e)
      then have "is_NotFoundError e"
        by (auto simp: calculateOrderTotal_def dest: calculateOrderTotal_loop_Inl)
      with Inl Some \<open>users s (od_user_id orderData) = Some user\<close> show ?thesis
        by (cases e) (auto simp: createOrder_try_def Let_def)
    next
      case (Inr totalAmount)
      with Some \<open>users s (od_user_id orderData) = Some user\<close> show ?thesis
        by (auto simp: createOrder_try_def Let_def Order_create_None)
    qed
  qed
qed

text \<open>
  So \<open>createOrder\<close> never returns an order: every call throws and the rollback leaves the
  database as it was.  The error is one of the checks of the service or, for a request
  that passes them all, the plain \<open>Error\<close> that wraps the failed validation of
  \<open>Order.create\<close>.
\<close>

lemma createOrder_fails:
  "\<exists>e. createOrder orderData items s = (Inl e, s)
     \<and> (is_NotFoundError e \<or> is_BusinessLogicError e
          \<or> e = Wrapped ''Error al crear pedido: '' SequelizeValidationError
          \<or> (e = ValidationError ''El pedido debe contener al menos un item''
              \<and> (items = None \<or> items = Some [])))"
proof -
  from createOrder_try_Inl [of orderData items s] obtain e s' where
    body: "createOrder_try orderData items s = (Inl e, s')" and
    kind: "is_NotFoundError e \<or> is_BusinessLogicError e \<or> e = SequelizeValidationError
          \<or> (e = ValidationError ''El pedido debe contener al menos un item''
              \<and> (items = None \<or> items = Some []))"
    by blast
  from kind show ?thesis
    by (cases e) (auto simp: createOrder_def body)
qed



text \<open>
  C7, as stated, fails: the service has no check on the quantities.  An order of 0 units
  of product 1 passes the checks of the service and is rejected by the ORM; the error
  that leaves \<open>createOrder\<close> is a plain \<open>Error\<close>, not a \<open>ValidationError\<close>.
\<close>

theorem C7_counterexample:
  "createOrder example_order_data (Some [\<lparr>it_product_id = 1, it_quantity = 0\<rparr>]) example_db
     = (Inl (Wrapped ''Error al crear pedido: '' SequelizeValidationError), example_db)
   \<and> \<not> is_ValidationError (Wrapped ''Error al crear pedido: '' SequelizeValidationError)"
  by (simp add: createOrder_def createOrder_try_def validateStockAvailability_eq is_short_def
        calculateOrderTotal_def Order_create_None example_db_def example_order_data_def)

text \<open>
  C7, amended.  For an existing user \<open>createOrder\<close> rejects an empty list of items with
  \<open>ValidationError\<close>.  A request in which some item has a non-positive quantity is
  rejected too, but never with \<open>ValidationError\<close>.  In both cases the database is as
  before the call, so no order is created.  The \<open>ValidationError\<close> for a non-positive
  quantity is the one of the checks of \<open>OrderController.createOrder\<close>.
\<close>

theorem C7_invalid_items_rejected:
  "(users s (od_user_id orderData) \<noteq> None \<longrightarrow>
      createOrder orderData (Some []) s =
        (Inl (ValidationError ''El pedido debe contener al menos un item''), s))
   \<and> (i \<in> set items \<and> it_quantity i \<le> 0 \<longrightarrow>
        (\<exists>e. createOrder orderData (Some items) s = (Inl e, s) \<and> \<not> is_ValidationError e)
        \<and> (\<exists>m. OrderController_createOrder_check user_id (Some items)
                  = Some (ValidationError m)))"
proof -
  have A: "createOrder orderData (Some []) s =
        (Inl (ValidationError ''El pedido debe contener al menos un item''), s)"
    if "users s (od_user_id orderData) \<noteq> None"
    using that by (auto simp: createOrder_def createOrder_try_def)
  have B: "\<exists>m. OrderController_createOrder_check user_id (Some items) = Some (ValidationError m)"
    if "i \<in> set items" "it_quantity i \<le> 0"
    using that by (auto simp: OrderController_createOrder_check_def list_ex_iff)
  have C: "\<exists>e. createOrder orderData (Some items) s = (Inl e, s) \<and> \<not> is_ValidationError e"
    if "i \<in> set items"
  proof -
    from that have "items \<noteq> []" by auto
    with createOrder_fails [of orderData "Some items" s] show ?thesis
      by (auto dest: other_class_not_ValidationError)
  qed
  from A B C show ?thesis by blast
qed

text \<open>C7 on the example database, for the existing user 1.\<close>

theorem C7_invalid_items_rejected_witness:
  "users example_db (od_user_id example_order_data) \<noteq> None
   \<and> createOrder example_order_data (Some []) example_db =
        (Inl (ValidationError ''El pedido debe contener al menos un item''), example_db)
   \<and> (\<exists>e. createOrder example_order_data
              (Some [\<lparr>it_product_id = 1, it_quantity = 1\<rparr>, \<lparr>it_product_id = 2, it_quantity = - 3\<rparr>])
              example_db = (Inl e, example_db)
           \<and> \<not> is_ValidationError e)
   \<and> (\<exists>m. OrderController_createOrder_check (Some 1)
              (Some [\<lparr>it_product_id = 1, it_quantity = 1\<rparr>, \<lparr>it_product_id = 2, it_quantity = - 3\<rparr>])
             = Some (ValidationError m))"
  using C7_invalid_items_rejected
          [where s = example_db and orderData = example_order_data
             and i = "\<lparr>it_product_id = 2, it_quantity = - 3\<rparr>"
             and items = "[\<lparr>it_product_id = 1, it_quantity = 1\<rparr>,
                           \<lparr>it_product_id = 2, it_quantity = - 3\<rparr>]"
             and user_id = "Some 1"]
  by (simp add: example_db_def example_order_data_def)

section \<open>The items of an order and its cancellation\<close>

lemma Inventory_update_literal_other [simp]:
  "users (Inventory_update_literal p n s) = users s"
  "products (Inventory_update_literal p n s) = products s"
  "orders (Inventory_update_literal p n s) = orders s"
  "order_items (Inventory_update_literal p n s) = order_items s"
  "reviews (Inventory_update_literal p n s) = reviews s"
  "next_order_id (Inventory_update_literal p n s) = next_order_id s"
  "next_order_item_id (Inventory_update_literal p n s) = next_order_item_id s"
  "next_review_id (Inventory_update_literal p n s) = next_review_id s"
  by (simp_all add: Inventory_update_literal_def split: option.splits)

lemma inventory_Inventory_update_literal:
  "inventory (Inventory_update_literal p n s) q =
     (if q = p then map_option (\<lambda>st. st\<lparr>inv_quantity := inv_quantity st + n\<rparr>) (inventory s p)
      else inventory s q)"
  by (simp add: Inventory_update_literal_def split: option.splits)

lemma fold_literal_other [simp]:
  "users (fold (\<lambda>x. Inventory_update_literal (f x) (g x)) xs s) = users s"
  "products (fold (\<lambda>x. Inventory_update_literal (f x) (g x)) xs s) = products s"
  "orders (fold (\<lambda>x. Inventory_update_literal (f x) (g x)) xs s) = orders s"
  "order_items (fold (\<lambda>x. Inventory_update_literal (f x) (g x)) xs s) = order_items s"
  "reviews (fold (\<lambda>x. Inventory_update_literal (f x) (g x)) xs s) = reviews s"
  by (induction xs arbitrary: s) simp_all

text \<open>A batch of literal updates changes the quantity of a product by the sum of its deltas.\<close>

lemma fold_literal_inventory:
  "inventory (fold (\<lambda>x. Inventory_update_literal (f x) (g x)) xs s) p =
     map_option (\<lambda>st. st\<lparr>inv_quantity := inv_quantity st
                          + sum_list (map g (filter (\<lambda>x. f x = p) xs))\<rparr>) (inventory s p)"
proof (induction xs arbitrary: s)
  case Nil
  show ?case by (cases "inventory s p") simp_all
next
  case (Cons x xs)
  show ?case
    by (cases "inventory s p")
       (auto simp: Cons.IH inventory_Inventory_update_literal add.assoc)
qed

text \<open>
  What a run of the loop of \<open>createOrder\<close> that does not throw has done: one order item per
  requested item, and from the stock of every product the quantity asked of it.
\<close>

lemma createOrder_loop_Inr:
  assumes "createOrder_loop orderId items s = (Inr u, s')"
  shows "(\<exists>new. order_items s' = order_items s @ new \<and> list_all2 (line_of orderId) new items)
       \<and> (\<forall>p. inventory s' p =
                map_option (\<lambda>st. st\<lparr>inv_quantity := inv_quantity st - ordered_quantity p items\<rparr>)
                  (inventory s p))
       \<and> orders s' = orders s"
  using assms
proof (induction items arbitrary: s)
  case Nil
  then show ?case
    by (auto simp: ordered_quantity_def option.map_ident split: option.splits)
next
  case (Cons i rest)
  from Cons.prems obtain product where prod: "products s (it_product_id i) = Some product"
    by (auto split: option.splits)
  from Cons.prems prod obtain oi s1 where create:
    "OrderItem_create orderId (it_product_id i) (it_quantity i) (prod_price product)
       (js_mul (prod_price product) (of_int (it_quantity i))) s = Inr (oi, s1)"
    by (auto split: sum.splits)
  define s2 where "s2 = Inventory_update_literal (it_product_id i) (- it_quantity i) s1"
  from create have oi: "line_of orderId oi i"
    and s1: "order_items s1 = order_items s @ [oi]" "inventory s1 = inventory s"
       "orders s1 = orders s"
    by (auto simp: OrderItem_create_def line_of_def Let_def split: if_splits)
  from Cons.prems prod create have rest: "createOrder_loop orderId rest s2 = (Inr u, s')"
    by (simp add: s2_def)
  note IH = Cons.IH [OF rest]
  from IH obtain new where new: "order_items s' = order_items s2 @ new"
      "list_all2 (line_of orderId) new rest" by blast
  have items: "order_items s' = order_items s @ (oi # new)"
    using new(1) s1(1) by (simp add: s2_def)
  have "list_all2 (line_of orderId) (oi # new) (i # rest)"
    using new(2) oi by simp
  with items have A: "\<exists>new. order_items s' = order_items s @ new
       \<and> list_all2 (line_of orderId) new (i # rest)" by blast
  have B: "inventory s' p =
             map_option (\<lambda>st. st\<lparr>inv_quantity := inv_quantity st - ordered_quantity p (i # rest)\<rparr>)
               (inventory s p)" for p
  proof -
    from IH have "inventory s' p =
        map_option (\<lambda>st. st\<lparr>inv_quantity := inv_quantity st - ordered_quantity p rest\<rparr>)
          (inventory s2 p)" by blast
    then show ?thesis
      by (cases "inventory s p")
         (auto simp: s2_def s1(2) inventory_Inventory_update_literal ordered_quantity_def)
  qed
  have C: "orders s' = orders s"
    using IH s1(3) by (simp add: s2_def)
  from A B C show ?case by blast
qed

lemma line_of_sum:
  "list_all2 (line_of orderId) new items \<Longrightarrow>
     sum_list (map oi_quantity (filter (\<lambda>oi. oi_product_id oi = p) new))
       = ordered_quantity p items"
  by (induction rule: list_all2_induct) (auto simp: ordered_quantity_def line_of_def)

lemma line_of_order_id:
  "list_all2 (line_of orderId) new items \<Longrightarrow> \<forall>oi\<in>set new. oi_order_id oi = orderId"
  by (induction rule: list_all2_induct) (auto simp: line_of_def)

lemma releaseOrderStock_inventory:
  "inventory (releaseOrderStock orderId t) p =
     map_option (\<lambda>st. st\<lparr>inv_quantity := inv_quantity st
        + sum_list (map oi_quantity
            (filter (\<lambda>oi. oi_product_id oi = p) (findAll_OrderItem orderId t)))\<rparr>)
      (inventory t p)"
  by (simp add: releaseOrderStock_def fold_literal_inventory)

lemma releaseOrderStock_other [simp]:
  "orders (releaseOrderStock orderId t) = orders t"
  "order_items (releaseOrderStock orderId t) = order_items t"
  "products (releaseOrderStock orderId t) = products t"
  "users (releaseOrderStock orderId t) = users t"
  "reviews (releaseOrderStock orderId t) = reviews t"
  by (simp_all add: releaseOrderStock_def)

text \<open>
  The example database with the order is what \<open>Order.create\<close>, given an order number,
  and the loop of \<open>createOrder\<close> make of the example database.
\<close>

lemma example_db_ordered_by_steps:
  "Order_create (Some ''ORD-EXAMPLE-1'') 1 20 (od_shipping_address example_order_data)
      (od_billing_address example_order_data) example_db
     = Inr (1, example_db\<lparr>orders := [1 \<mapsto> example_order], next_order_id := 2\<rparr>)
   \<and> createOrder_loop 1 [\<lparr>it_product_id = 1, it_quantity = 2\<rparr>]
        (example_db\<lparr>orders := [1 \<mapsto> example_order], next_order_id := 2\<rparr>)
     = (Inr (), example_db_ordered)"
  by (simp add: order_defs example_defs js_mul_example)

text \<open>
  The part of the round trip that the code does make: when the loop of \<open>createOrder\<close> has
  written the items of an order that is in the table, \<open>cancelOrder\<close> puts back exactly
  what the loop took, and every inventory row is as it was before the loop.
\<close>

lemma createOrder_loop_then_cancelOrder:
  assumes none: "findAll_OrderItem orderId s = []"
    and ord: "orders s orderId = Some order" "ord_status order \<noteq> Cancelled"
       "ord_status order \<noteq> Delivered"
    and loop: "createOrder_loop orderId items s = (Inr u, s')"
  shows "\<exists>t'. cancelOrder orderId s' =
            (Inr (order\<lparr>ord_status := Cancelled, ord_payment_status := Refunded\<rparr>), t')
          \<and> inventory t' = inventory s"
proof -
  note lp = createOrder_loop_Inr [OF loop]
  from lp obtain new where new: "order_items s' = order_items s @ new"
      "list_all2 (line_of orderId) new items" by blast
  have "filter (\<lambda>oi. oi_order_id oi = orderId) new = new"
    using line_of_order_id [OF new(2)] by (simp add: filter_id_conv)
  with none new(1) have lines: "findAll_OrderItem orderId s' = new"
    by (simp add: findAll_OrderItem_def)
  define t' where "t' = (releaseOrderStock orderId s')\<lparr>orders := (orders s')(orderId \<mapsto>
                          order\<lparr>ord_status := Cancelled, ord_payment_status := Refunded\<rparr>)\<rparr>"
  from lp ord(1) have cur: "orders s' orderId = Some order" by simp
  have run: "cancelOrder orderId s' =
            (Inr (order\<lparr>ord_status := Cancelled, ord_payment_status := Refunded\<rparr>), t')"
    using cur ord(2,3)
    by (simp add: cancelOrder_def cancelOrder_try_def Let_def getOrderById_def t'_def)
  have "inventory t' p = inventory s p" for p
  proof -
    have "inventory t' p = inventory (releaseOrderStock orderId s') p" by (simp add: t'_def)
    also have "\<dots> =
        map_option (\<lambda>st. st\<lparr>inv_quantity := inv_quantity st + ordered_quantity p items\<rparr>)
          (inventory s' p)"
      by (simp add: releaseOrderStock_inventory lines line_of_sum [OF new(2)])
    also have "\<dots> = inventory s p"
      using lp by (cases "inventory s p") simp_all
    finally show ?thesis .
  qed
  then have "inventory t' = inventory s" by (rule ext)
  with run show ?thesis by blast
qed

text \<open>
  What \<open>updateOrderStatus\<close> to cancelled does to an order that is not cancelled yet,
  whatever its status: the stock of the order is released and the status is written;
  \<open>payment_status\<close> is not touched and no status is refused.
\<close>

lemma updateOrderStatus_cancelled:
  assumes "orders s orderId = Some order" and "ord_status order \<noteq> Cancelled"
  shows "updateOrderStatus orderId ''cancelled'' s =
           (Inr (order\<lparr>ord_status := Cancelled\<rparr>),
            (releaseOrderStock orderId s)\<lparr>orders := (orders s)(orderId \<mapsto>
               order\<lparr>ord_status := Cancelled\<rparr>)\<rparr>)"
  using assms
  by (simp add: updateOrderStatus_def updateOrderStatus_try_def Let_def getOrderById_def)

text \<open>
  C4 does not hold of the code.  \<open>updateOrderStatus\<close> to cancelled releases the stock of
  the order and writes the status, and nothing else: on the pending example order the
  stock of product 1 goes from 3 back to 5, the status is cancelled, and
  \<open>payment_status\<close> is still pending.  \<open>cancelOrder\<close> on the same order does set
  \<open>payment_status\<close> to refunded.
\<close>

theorem C4_updateOrderStatus_cancelled_not_refunded:
  "updateOrderStatus 1 ''cancelled'' example_db_ordered
     = (Inr (example_order\<lparr>ord_status := Cancelled\<rparr>),
        example_db_ordered\<lparr>inventory := inventory example_db,
           orders := [1 \<mapsto> example_order\<lparr>ord_status := Cancelled\<rparr>]\<rparr>)
   \<and> ord_payment_status (example_order\<lparr>ord_status := Cancelled\<rparr>) = PaymentPending
   \<and> fst (cancelOrder 1 example_db_ordered)
       = Inr (example_order\<lparr>ord_status := Cancelled, ord_payment_status := Refunded\<rparr>)"
  by (simp add: order_defs example_defs) (simp add: fun_eq_iff)

text \<open>
  C5 does not hold of the code.  \<open>cancelOrder\<close> refuses a delivered order, but
  \<open>updateOrderStatus\<close> has no such guard: the example order, once delivered, is set to
  cancelled by it (and its stock is put back).  \<open>cancelOrder\<close> also cancels a shipped
  order.
\<close>

theorem C5_delivered_order_gets_cancelled:
  "updateOrderStatus 1 ''delivered'' example_db_ordered
     = (Inr (example_order\<lparr>ord_status := Delivered\<rparr>), example_db_with_status Delivered)
   \<and> updateOrderStatus 1 ''cancelled'' (example_db_with_status Delivered)
     = (Inr (example_order\<lparr>ord_status := Cancelled\<rparr>),
        example_db_ordered\<lparr>inventory := inventory example_db,
           orders := [1 \<mapsto> example_order\<lparr>ord_status := Cancelled\<rparr>]\<rparr>)
   \<and> cancelOrder 1 (example_db_with_status Delivered)
     = (Inl (BusinessLogicError ''No se puede cancelar un pedido ya entregado''),
        example_db_with_status Delivered)
   \<and> fst (cancelOrder 1 (example_db_with_status Shipped))
     = Inr (example_order\<lparr>ord_status := Cancelled, ord_payment_status := Refunded\<rparr>)"
  by (simp add: order_defs example_defs) (simp add: fun_eq_iff)

section \<open>Reviews\<close>

text \<open>
  The model \<open>Product\<close> declares neither \<open>average_rating\<close> nor \<open>review_count\<close>, so the
  update of \<open>updateProductAverageRating\<close> writes nothing.
\<close>

lemma updateProductAverageRating_unchanged [simp]:
  "updateProductAverageRating productId s = s"
proof (cases "products s productId")
  case None
  then show ?thesis
    by (simp add: updateProductAverageRating_def Product_update_def)
next
  case (Some p)
  then have "(products s)(productId \<mapsto> p) = products s" by (simp add: map_upd_triv)
  with Some show ?thesis
    by (simp add: updateProductAverageRating_def Product_update_def average_rating_values_def
          Product_attributes_def Let_def)
qed

lemma Math_round_0 [simp]: "Math_round 0 = 0"
  unfolding Math_round_def by (rule floor_unique) simp_all

lemma verifyPurchase_throws:
  "verifyPurchase userId productId s = Inl (Wrapped ''Error al verificar compra: '' TypeError)"
  by (simp add: verifyPurchase_def verifyPurchase_try_def sequelize_Op_def)

text \<open>
  So \<open>createReview\<close> never stores a review: a call that passes the checks on the user,
  the product and the existing review throws in \<open>verifyPurchase\<close>.
\<close>

lemma createReview_fails:
  "\<exists>e. createReview reviewData s = (Inl e, s)"
  by (auto simp: createReview_def createReview_try_def verifyPurchase_throws
           split: option.splits)


text \<open>
  C9.  In a database whose reviews refer to existing users and products (the foreign keys
  of \<open>reviews\<close>), a \<open>createReview\<close> for a pair of user and product that already has a
  review fails with \<open>ConflictError\<close>, and the database, with the first review in it, is
  exactly as before the call.
\<close>

theorem C9_second_review_conflict:
  assumes fk: "\<forall>r\<in>set (reviews s). users s (rev_user_id r) \<noteq> None
                 \<and> products s (rev_product_id r) \<noteq> None"
    and "first \<in> set (reviews s)"
    and "rev_product_id first = rd_product_id reviewData"
    and "rev_user_id first = rd_user_id reviewData"
  shows "createReview reviewData s = (Inl (ConflictError ''Ya has resenado este producto''), s)"
proof -
  from assms have "users s (rd_user_id reviewData) \<noteq> None"
    "products s (rd_product_id reviewData) \<noteq> None" by auto
  moreover from assms have
    "findOne_Review (rd_product_id reviewData) (rd_user_id reviewData) s \<noteq> None"
    by (auto simp: findOne_Review_def find_None_iff)
  ultimately show ?thesis
    by (auto simp: createReview_def createReview_try_def split: option.splits)
qed

text \<open>C9 on the example: a second review of product 1 by user 1, with another rating.\<close>

theorem C9_second_review_conflict_witness:
  "example_review \<in> set (reviews example_db_reviewed)
   \<and> createReview (example_review_data\<lparr>rd_rating := 1, rd_comment := None\<rparr>) example_db_reviewed
       = (Inl (ConflictError ''Ya has resenado este producto''), example_db_reviewed)"
  using C9_second_review_conflict
          [where s = example_db_reviewed and first = example_review
             and reviewData = "example_review_data\<lparr>rd_rating := 1, rd_comment := None\<rparr>"]
  by (simp add: example_defs)

text \<open>
  C10 does not hold of the code.  After the only review of product 1 is deleted the
  aggregate query gives no average and a count of 0, and the values handed to
  \<open>Product.update\<close> are 0 and 0; but the model \<open>Product\<close> has no attribute
  \<open>average_rating\<close> or \<open>review_count\<close>, so the update writes nothing and the row of the
  product is what it was.
\<close>

theorem C10_aggregate_not_persisted:
  "average_rating_values 1 (example_db_reviewed\<lparr>reviews := []\<rparr>)
     = [(''average_rating'', JNumber 0), (''review_count'', JNumber 0)]
   \<and> filter (\<lambda>kv. fst kv \<in> set Product_attributes)
        (average_rating_values 1 (example_db_reviewed\<lparr>reviews := []\<rparr>)) = []
   \<and> deleteReview 1 example_db_reviewed = (Inr True, example_db_reviewed\<lparr>reviews := []\<rparr>)
   \<and> products (example_db_reviewed\<lparr>reviews := []\<rparr>) = products example_db_reviewed"
  by (simp add: review_defs example_defs)

end
